theory Spec2Isabelle
  imports Main
begin

section \<open>Decoded JSON values and the Python operations applied to them\<close>

text \<open>
  The test client of \<^verbatim>\<open>src/mcp_forge/tester.py\<close> talks to a server process in
  newline-delimited JSON-RPC. Whatever \<^verbatim>\<open>json.loads\<close> may return is a value of
  \<open>json\<close>. A dict is an association list in insertion order, looked up with
  \<open>map_of\<close>. A float is kept as the text Python prints for it: the client never
  computes with one, it only tests its truth value. A \<open>char\<close> stands for one
  character of a Python string.
\<close>

datatype json =
    JNull
  | JBool bool
  | JInt int
  | JFloat string
  | JStr string
  | JList "json list"
  | JObj "(string \<times> json) list"

text \<open>
  The exceptions the client can meet, all subclasses of Python's \<^verbatim>\<open>Exception\<close>.
  Each carries the text \<^verbatim>\<open>str(exc)\<close> gives. \<open>OSError\<close> stands for what the operating
  system raises on a process or a pipe, \<open>ValueError\<close> for what the decoder raises on a
  line that is not JSON.
\<close>

datatype exn =
    RuntimeError string
  | OSError string
  | ValueError string
  | TypeError string
  | AttributeError string
  | KeyError string
  | IndexError string
  | TimeoutExpired string

fun str_exc :: "exn \<Rightarrow> string" where
  "str_exc (RuntimeError m) = m"
| "str_exc (OSError m) = m"
| "str_exc (ValueError m) = m"
| "str_exc (TypeError m) = m"
| "str_exc (AttributeError m) = m"
| "str_exc (KeyError m) = m"
| "str_exc (IndexError m) = m"
| "str_exc (TimeoutExpired m) = m"

definition and_then :: "exn + 'a \<Rightarrow> ('a \<Rightarrow> exn + 'b) \<Rightarrow> exn + 'b" where
  "and_then x f = (case x of Inl exc \<Rightarrow> Inl exc | Inr v \<Rightarrow> f v)"

definition quoted :: "string \<Rightarrow> string" where
  "quoted s = CHR 0x27 # s @ [CHR 0x27]"

fun type_name :: "json \<Rightarrow> string" where
  "type_name JNull = ''NoneType''"
| "type_name (JBool _) = ''bool''"
| "type_name (JInt _) = ''int''"
| "type_name (JFloat _) = ''float''"
| "type_name (JStr _) = ''str''"
| "type_name (JList _) = ''list''"
| "type_name (JObj _) = ''dict''"

fun startswith :: "string \<Rightarrow> string \<Rightarrow> bool" where
  "startswith s [] = True"
| "startswith [] (k # ks) = False"
| "startswith (c # s) (k # ks) = (c = k \<and> startswith s ks)"

fun str_contains :: "string \<Rightarrow> string \<Rightarrow> bool" where
  "str_contains [] k = (k = [])"
| "str_contains (c # s) k = (startswith (c # s) k \<or> str_contains s k)"

text \<open>\<^verbatim>\<open>k in v\<close> for a string \<open>k\<close>: a key of a dict, an element of a list, a substring
  of a string; any other value is not iterable.\<close>

fun py_in :: "string \<Rightarrow> json \<Rightarrow> exn + bool" where
  "py_in k (JObj fs) = Inr (k \<in> set (map fst fs))"
| "py_in k (JList xs) = Inr (JStr k \<in> set xs)"
| "py_in k (JStr s) = Inr (str_contains s k)"
| "py_in k v = Inl (TypeError (''argument of type '' @ quoted (type_name v) @ '' is not iterable''))"

text \<open>\<^verbatim>\<open>v[k]\<close> for a string \<open>k\<close>.\<close>

fun py_getitem :: "json \<Rightarrow> string \<Rightarrow> exn + json" where
  "py_getitem (JObj fs) k =
     (case map_of fs k of None \<Rightarrow> Inl (KeyError (quoted k)) | Some v \<Rightarrow> Inr v)"
| "py_getitem (JList xs) k = Inl (TypeError ''list indices must be integers or slices, not str'')"
| "py_getitem (JStr s) k = Inl (TypeError (''string indices must be integers, not '' @ quoted ''str''))"
| "py_getitem v k = Inl (TypeError (quoted (type_name v) @ '' object is not subscriptable''))"

text \<open>\<^verbatim>\<open>v[0]\<close>. The keys of a decoded dict are strings, so \<open>0\<close> is never one.\<close>

fun py_first :: "json \<Rightarrow> exn + json" where
  "py_first (JList xs) =
     (case xs of [] \<Rightarrow> Inl (IndexError ''list index out of range'') | x # _ \<Rightarrow> Inr x)"
| "py_first (JStr s) =
     (case s of [] \<Rightarrow> Inl (IndexError ''string index out of range'') | c # _ \<Rightarrow> Inr (JStr [c]))"
| "py_first (JObj fs) = Inl (KeyError ''0'')"
| "py_first v = Inl (TypeError (quoted (type_name v) @ '' object is not subscriptable''))"

text \<open>\<^verbatim>\<open>v.get(k, default)\<close>: only a dict has the method.\<close>

fun py_get :: "json \<Rightarrow> string \<Rightarrow> json \<Rightarrow> exn + json" where
  "py_get (JObj fs) k d = Inr (case map_of fs k of None \<Rightarrow> d | Some v \<Rightarrow> v)"
| "py_get v k d =
     Inl (AttributeError (quoted (type_name v) @ '' object has no attribute '' @ quoted ''get''))"

fun py_len :: "json \<Rightarrow> exn + nat" where
  "py_len (JList xs) = Inr (length xs)"
| "py_len (JStr s) = Inr (length s)"
| "py_len (JObj fs) = Inr (length fs)"
| "py_len v = Inl (TypeError (''object of type '' @ quoted (type_name v) @ '' has no len()''))"

fun isinstance_list :: "json \<Rightarrow> bool" where
  "isinstance_list (JList _) = True"
| "isinstance_list _ = False"

text \<open>The truth value of a decoded value, as \<^verbatim>\<open>if tools:\<close> tests it.\<close>

fun truthy :: "json \<Rightarrow> bool" where
  "truthy JNull = False"
| "truthy (JBool b) = b"
| "truthy (JInt n) = (n \<noteq> 0)"
| "truthy (JFloat t) = (t \<noteq> ''0.0'' \<and> t \<noteq> ''-0.0'')"
| "truthy (JStr s) = (s \<noteq> [])"
| "truthy (JList xs) = (xs \<noteq> [])"
| "truthy (JObj fs) = (fs \<noteq> [])"

definition str_bool :: "bool \<Rightarrow> string" where
  "str_bool b = (if b then ''True'' else ''False'')"


section \<open>The environment: the operating system, the peer and the Python runtime\<close>

text \<open>
  What one exchange with the peer comes to, seen from \<^verbatim>\<open>send_request\<close>: the write
  to the child's standard input raises, \<^verbatim>\<open>readline\<close> never returns, \<^verbatim>\<open>readline\<close>
  returns no bytes, reading or decoding the line raises, or the line decodes to a
  value. The source sets no timeout on the read: when the peer neither answers nor
  closes its output, the read blocks for ever.
\<close>

datatype exchange =
    WriteFails exn
  | Blocks
  | Eof
  | ReadFails exn
  | Line json

text \<open>
  \<open>spawn\<close> is \<^verbatim>\<open>subprocess.Popen\<close> on the command and working directory: the
  exception it raises, if any. \<open>peer\<close> answers the requests written so far, oldest
  first, the last one being the request in flight. \<open>exit_delay\<close> is the time the
  child takes to exit once \<^verbatim>\<open>terminate()\<close> has signalled it, \<open>None\<close> if it never
  does. \<open>repr\<close> is the text Python's \<^verbatim>\<open>str\<close> gives for a number, a list or a dict.
\<close>

record env =
  spawn :: "string list \<Rightarrow> string option \<Rightarrow> exn option"
  peer :: "json list \<Rightarrow> exchange"
  exit_delay :: "nat option"
  repr :: "json \<Rightarrow> string"

definition py_str :: "env \<Rightarrow> json \<Rightarrow> string" where
  "py_str E v =
     (case v of JStr s \<Rightarrow> s | JBool b \<Rightarrow> str_bool b | JNull \<Rightarrow> ''None'' | _ \<Rightarrow> repr E v)"


section \<open>TestResult and TestReport\<close>

record TestResult =
  name :: string
  passed :: bool
  message :: string
  response :: "json option"

record TestReport =
  results :: "TestResult list"

text \<open>The three properties of \<^verbatim>\<open>TestReport\<close>; \<^verbatim>\<open>sum(1 for r in ... if ...)\<close> adds a
  one for every result the filter keeps.\<close>

definition TestReport_passed :: "TestReport \<Rightarrow> int" where
  "TestReport_passed rep = sum_list (map (\<lambda>r. 1) (filter (\<lambda>r. passed r) (results rep)))"

definition TestReport_failed :: "TestReport \<Rightarrow> int" where
  "TestReport_failed rep = sum_list (map (\<lambda>r. 1) (filter (\<lambda>r. \<not> passed r) (results rep)))"

definition TestReport_total :: "TestReport \<Rightarrow> int" where
  "TestReport_total rep = int (length (results rep))"


section \<open>MCPTestClient\<close>

text \<open>
  The handle of the child process records when \<^verbatim>\<open>terminate()\<close> first signalled it.
  Besides the two attributes of the class, the client state keeps two things the
  claims speak about and the source leaves to the outside world: the requests handed
  to the child's standard input, oldest first, and a clock that \<^verbatim>\<open>wait\<close> advances.
\<close>

record popen =
  signalled :: "nat option"

record client =
  server_cmd :: "string list"
  cwd :: "string option"
  process :: "popen option"
  request_id :: int
  requests :: "json list"
  clock :: nat

definition MCPTestClient :: "string list \<Rightarrow> string option \<Rightarrow> client" where
  "MCPTestClient cmd dir =
     \<lparr>server_cmd = cmd, cwd = dir, process = None, request_id = 0, requests = [], clock = 0\<rparr>"

definition start :: "env \<Rightarrow> client \<Rightarrow> (exn + unit) \<times> client" where
  "start E c =
     (case spawn E (server_cmd c) (cwd c) of
        Some exc \<Rightarrow> (Inl exc, c)
      | None \<Rightarrow> (Inr (), c\<lparr>process := Some \<lparr>signalled = None\<rparr>\<rparr>))"

text \<open>
  The time the child still needs to exit, \<open>None\<close> when it never does or has not been
  signalled. \<^verbatim>\<open>Popen.wait(timeout)\<close> returns once the child has exited and raises
  \<^verbatim>\<open>TimeoutExpired\<close> when it has not after \<open>timeout\<close>.
\<close>

definition remaining :: "env \<Rightarrow> popen \<Rightarrow> client \<Rightarrow> nat option" where
  "remaining E p c =
     (case (exit_delay E, signalled p) of
        (Some d, Some t0) \<Rightarrow> Some ((t0 + d) - clock c)
      | _ \<Rightarrow> None)"

definition timeout_message :: "env \<Rightarrow> client \<Rightarrow> nat \<Rightarrow> string" where
  "timeout_message E c timeout =
     ''Command '' @ quoted (repr E (JList (map JStr (server_cmd c))))
       @ '' timed out after '' @ repr E (JInt (int timeout)) @ '' seconds''"

definition wait :: "env \<Rightarrow> popen \<Rightarrow> nat \<Rightarrow> client \<Rightarrow> (exn + unit) \<times> client" where
  "wait E p timeout c =
     (case remaining E p c of
        Some r \<Rightarrow>
          if r \<le> timeout then (Inr (), c\<lparr>clock := clock c + r\<rparr>)
          else (Inl (TimeoutExpired (timeout_message E c timeout)), c\<lparr>clock := clock c + timeout\<rparr>)
      | None \<Rightarrow>
          (Inl (TimeoutExpired (timeout_message E c timeout)), c\<lparr>clock := clock c + timeout\<rparr>))"

definition terminate :: "client \<Rightarrow> popen \<Rightarrow> popen" where
  "terminate c p = (case signalled p of None \<Rightarrow> p\<lparr>signalled := Some (clock c)\<rparr> | Some _ \<Rightarrow> p)"

definition stop :: "env \<Rightarrow> client \<Rightarrow> (exn + unit) \<times> client" where
  "stop E c =
     (case process c of
        None \<Rightarrow> (Inr (), c)
      | Some p \<Rightarrow>
          (let p1 = terminate c p;
               c1 = c\<lparr>process := Some p1\<rparr>
           in case wait E p1 5 c1 of
                (Inl exc, c2) \<Rightarrow> (Inl exc, c2)
              | (Inr u, c2) \<Rightarrow> (Inr (), c2\<lparr>process := None\<rparr>)))"

text \<open>
  \<^verbatim>\<open>send_request\<close>. The child is spawned with pipes for all three streams, so the
  only way into the first branch is a client without a process. \<open>params\<close> goes into
  the request when it is neither \<^verbatim>\<open>None\<close> nor empty. The result is \<open>None\<close> when the
  call never returns, \<open>Some\<close> of the exception raised or of the response otherwise;
  with it comes the client as the call leaves it or, when it never returns, as it
  stands while the read blocks.
\<close>

definition send_request ::
  "env \<Rightarrow> string \<Rightarrow> (string \<times> json) list option \<Rightarrow> client
     \<Rightarrow> (exn + json) option \<times> client" where
  "send_request E method params c =
     (case process c of
        None \<Rightarrow> (Some (Inl (RuntimeError ''Server not started'')), c)
      | Some p \<Rightarrow>
          (let c1 = c\<lparr>request_id := request_id c + 1\<rparr>;
               request = JObj ([(''jsonrpc'', JStr ''2.0''), (''id'', JInt (request_id c1)),
                                (''method'', JStr method)]
                          @ (case params of None \<Rightarrow> []
                             | Some ps \<Rightarrow> if ps \<noteq> [] then [(''params'', JObj ps)] else []));
               c2 = c1\<lparr>requests := requests c1 @ [request]\<rparr>
           in case peer E (requests c2) of
                WriteFails exc \<Rightarrow> (Some (Inl exc), c2)
              | Blocks \<Rightarrow> (None, c2)
              | Eof \<Rightarrow> (Some (Inl (RuntimeError ''No response from server'')), c2)
              | ReadFails exc \<Rightarrow> (Some (Inl exc), c2)
              | Line v \<Rightarrow> (Some (Inr v), c2)))"


section \<open>The probes of run_test_suite\<close>

text \<open>
  A probe is one \<^verbatim>\<open>try\<close> statement of \<^verbatim>\<open>run_test_suite\<close>: it gives the result it
  appends to the report, or \<open>None\<close> when a request of it never returns, and the client
  as it leaves it. \<open>except\<close> is the \<^verbatim>\<open>except Exception as exc\<close> clause every
  request probe ends with.
\<close>

definition except :: "string \<Rightarrow> exn + TestResult \<Rightarrow> TestResult" where
  "except n x =
     (case x of
        Inl exc \<Rightarrow> \<lparr>name = n, passed = False, message = str_exc exc, response = None\<rparr>
      | Inr t \<Rightarrow> t)"

definition error_message :: "env \<Rightarrow> json \<Rightarrow> exn + string" where
  "error_message E resp = and_then (py_get resp ''error'' JNull) (\<lambda>err. Inr (''Error: '' @ py_str E err))"

definition initialize_params :: "(string \<times> json) list" where
  "initialize_params =
     [(''protocolVersion'', JStr ''2024-11-05''),
      (''capabilities'', JObj []),
      (''clientInfo'', JObj [(''name'', JStr ''mcp-forge-tester''), (''version'', JStr ''0.1.0'')])]"

definition check_initialize :: "env \<Rightarrow> json \<Rightarrow> exn + TestResult" where
  "check_initialize E resp =
     and_then (py_in ''result'' resp) (\<lambda>has_result.
       if has_result then
         and_then (py_getitem resp ''result'') (\<lambda>result.
         and_then (py_in ''protocolVersion'' result) (\<lambda>has_version.
         and_then (py_in ''serverInfo'' result) (\<lambda>has_info.
         and_then (py_in ''capabilities'' result) (\<lambda>has_caps.
           let ok = (has_version \<and> has_info \<and> has_caps);
               msg = (if ok then ''initialize response valid''
                      else ''Missing fields: version='' @ str_bool has_version
                           @ '' info='' @ str_bool has_info @ '' caps='' @ str_bool has_caps)
           in Inr \<lparr>name = ''initialize'', passed = ok, message = msg, response = Some resp\<rparr>))))
       else
         and_then (error_message E resp) (\<lambda>msg.
           Inr \<lparr>name = ''initialize'', passed = False, message = msg, response = Some resp\<rparr>))"

definition probe_initialize :: "env \<Rightarrow> client \<Rightarrow> TestResult option \<times> client" where
  "probe_initialize E c =
     (case send_request E ''initialize'' (Some initialize_params) c of
        (None, c1) \<Rightarrow> (None, c1)
      | (Some r, c1) \<Rightarrow> (Some (except ''initialize'' (and_then r (check_initialize E))), c1))"

definition check_tools_list :: "env \<Rightarrow> json \<Rightarrow> exn + TestResult" where
  "check_tools_list E resp =
     and_then (py_in ''result'' resp) (\<lambda>has_result.
       if has_result then
         and_then (py_getitem resp ''result'') (\<lambda>result.
         and_then (py_get result ''tools'' (JList [])) (\<lambda>tools.
         let ok = isinstance_list tools in
         and_then (py_len tools) (\<lambda>n.
           Inr \<lparr>name = ''tools/list'', passed = ok,
                message = ''Found '' @ py_str E (JInt (int n)) @ '' tools'', response = Some resp\<rparr>)))
       else
         and_then (error_message E resp) (\<lambda>msg.
           Inr \<lparr>name = ''tools/list'', passed = False, message = msg, response = Some resp\<rparr>))"

definition probe_tools_list :: "env \<Rightarrow> client \<Rightarrow> TestResult option \<times> client" where
  "probe_tools_list E c =
     (case send_request E ''tools/list'' None c of
        (None, c1) \<Rightarrow> (None, c1)
      | (Some r, c1) \<Rightarrow> (Some (except ''tools/list'' (and_then r (check_tools_list E))), c1))"

definition listed_tools :: "json \<Rightarrow> exn + json" where
  "listed_tools resp =
     and_then (py_get resp ''result'' (JObj [])) (\<lambda>result. py_get result ''tools'' (JList []))"

definition first_tool_name :: "json \<Rightarrow> exn + json" where
  "first_tool_name tools = and_then (py_first tools) (\<lambda>tool. py_getitem tool ''name'')"

definition tools_call_params :: "json \<Rightarrow> (string \<times> json) list" where
  "tools_call_params tool_name =
     [(''name'', tool_name), (''arguments'', JObj [(''query'', JStr ''test'')])]"

definition check_tools_call :: "env \<Rightarrow> json \<Rightarrow> json \<Rightarrow> exn + TestResult" where
  "check_tools_call E tool_name resp2 =
     and_then (py_in ''result'' resp2) (\<lambda>has_result.
       if has_result then
         and_then (py_getitem resp2 ''result'') (\<lambda>result.
         and_then (py_get result ''content'' (JList [])) (\<lambda>content.
         and_then (py_len content) (\<lambda>n.
           let ok = (n > 0) in
           Inr \<lparr>name = ''tools/call'', passed = ok,
                message = ''Called '' @ quoted (py_str E tool_name) @ '' successfully'',
                response = Some resp2\<rparr>)))
       else
         and_then (error_message E resp2) (\<lambda>msg.
           Inr \<lparr>name = ''tools/call'', passed = False, message = msg, response = Some resp2\<rparr>))"

definition probe_tools_call :: "env \<Rightarrow> client \<Rightarrow> TestResult option \<times> client" where
  "probe_tools_call E c =
     (case send_request E ''tools/list'' None c of
        (None, c1) \<Rightarrow> (None, c1)
      | (Some r, c1) \<Rightarrow>
          (case and_then r listed_tools of
             Inl exc \<Rightarrow> (Some (except ''tools/call'' (Inl exc)), c1)
           | Inr tools \<Rightarrow>
               if truthy tools then
                 (case first_tool_name tools of
                    Inl exc \<Rightarrow> (Some (except ''tools/call'' (Inl exc)), c1)
                  | Inr tool_name \<Rightarrow>
                      (case send_request E ''tools/call'' (Some (tools_call_params tool_name)) c1 of
                         (None, c2) \<Rightarrow> (None, c2)
                       | (Some r2, c2) \<Rightarrow>
                           (Some (except ''tools/call'' (and_then r2 (check_tools_call E tool_name))),
                            c2)))
               else
                 (Some \<lparr>name = ''tools/call'', passed = True,
                        message = ''No tools to test (skipped)'', response = None\<rparr>, c1)))"

definition check_ping :: "env \<Rightarrow> json \<Rightarrow> exn + TestResult" where
  "check_ping E resp =
     and_then (py_in ''result'' resp) (\<lambda>ok.
     and_then (if ok then Inr ''Ping OK'' else error_message E resp) (\<lambda>msg.
       Inr \<lparr>name = ''ping'', passed = ok, message = msg, response = Some resp\<rparr>))"

definition probe_ping :: "env \<Rightarrow> client \<Rightarrow> TestResult option \<times> client" where
  "probe_ping E c =
     (case send_request E ''ping'' None c of
        (None, c1) \<Rightarrow> (None, c1)
      | (Some r, c1) \<Rightarrow> (Some (except ''ping'' (and_then r (check_ping E))), c1))"

definition check_unknown_method :: "json \<Rightarrow> exn + TestResult" where
  "check_unknown_method resp =
     and_then (py_in ''error'' resp) (\<lambda>ok.
       Inr \<lparr>name = ''unknown_method'', passed = ok,
            message = (if ok then ''Correctly returned error for unknown method''
                       else ''Should have returned error''),
            response = Some resp\<rparr>)"

definition probe_unknown_method :: "env \<Rightarrow> client \<Rightarrow> TestResult option \<times> client" where
  "probe_unknown_method E c =
     (case send_request E ''nonexistent/method'' None c of
        (None, c1) \<Rightarrow> (None, c1)
      | (Some r, c1) \<Rightarrow> (Some (except ''unknown_method'' (and_then r check_unknown_method)), c1))"

text \<open>
  \<^verbatim>\<open>run_test_suite\<close>: \<open>Some\<close> of the report it returns or of the exception that
  leaves it, \<open>None\<close> when a probe never returns and so the run never does; with it
  the client as the run leaves it.
\<close>

definition run_test_suite ::
  "env \<Rightarrow> string list \<Rightarrow> string option \<Rightarrow> (exn + TestReport) option \<times> client" where
  "run_test_suite E cmd dir =
     (case start E (MCPTestClient cmd dir) of
        (Inl exc, c0) \<Rightarrow>
          (Some (Inr \<lparr>results = [\<lparr>name = ''server_start'', passed = False,
                                   message = str_exc exc, response = None\<rparr>]\<rparr>), c0)
      | (Inr u, c0) \<Rightarrow>
          (case probe_initialize E c0 of
             (None, c1) \<Rightarrow> (None, c1)
           | (Some t1, c1) \<Rightarrow>
          (case probe_tools_list E c1 of
             (None, c2) \<Rightarrow> (None, c2)
           | (Some t2, c2) \<Rightarrow>
          (case probe_tools_call E c2 of
             (None, c3) \<Rightarrow> (None, c3)
           | (Some t3, c3) \<Rightarrow>
          (case probe_ping E c3 of
             (None, c4) \<Rightarrow> (None, c4)
           | (Some t4, c4) \<Rightarrow>
          (case probe_unknown_method E c4 of
             (None, c5) \<Rightarrow> (None, c5)
           | (Some t5, c5) \<Rightarrow>
          (case stop E c5 of
             (Inl exc, c6) \<Rightarrow> (Some (Inl exc), c6)
           | (Inr u', c6) \<Rightarrow>
               (Some (Inr \<lparr>results =
                  [\<lparr>name = ''server_start'', passed = True,
                    message = ''Server started successfully'', response = None\<rparr>,
                   t1, t2, t3, t4, t5,
                   \<lparr>name = ''server_stop'', passed = True,
                    message = ''Server stopped cleanly'', response = None\<rparr>]\<rparr>), c6))))))))"


section \<open>Example environments\<close>

text \<open>
  Concrete environments on which the theorems below are instantiated. \<open>example_repr\<close>
  prints as Python does the one-digit integers, the floats and the lists of strings
  that need no escape, and abbreviates every other value. \<open>started\<close> is the client
  right after a successful \<^verbatim>\<open>start()\<close>.
\<close>

fun join :: "string \<Rightarrow> string list \<Rightarrow> string" where
  "join sep [] = []"
| "join sep [x] = x"
| "join sep (x # y # ys) = x @ sep @ join sep (y # ys)"

definition example_item :: "json \<Rightarrow> string" where
  "example_item v = (case v of JStr s \<Rightarrow> quoted s | _ \<Rightarrow> ''...'')"

definition example_repr :: "json \<Rightarrow> string" where
  "example_repr v =
     (case v of
        JInt n \<Rightarrow>
          (case map_of [(0, ''0''), (1, ''1''), (2, ''2''), (3, ''3''), (4, ''4''), (5, ''5''),
                        (6, ''6''), (7, ''7''), (8, ''8''), (9, ''9'')] n of
             Some digit \<Rightarrow> digit
           | None \<Rightarrow> ''...'')
      | JFloat t \<Rightarrow> t
      | JList xs \<Rightarrow> ''['' @ join '', '' (map example_item xs) @ '']''
      | _ \<Rightarrow> ''...'')"

definition started :: client where
  "started = (MCPTestClient [''server''] None)\<lparr>process := Some \<lparr>signalled = None\<rparr>\<rparr>"

text \<open>A server that starts, gives the same outcome to every request and exits as soon
  as it is signalled.\<close>

definition answers :: "exchange \<Rightarrow> env" where
  "answers x = \<lparr>spawn = (\<lambda>cmd dir. None), peer = (\<lambda>h. x), exit_delay = Some 0, repr = example_repr\<rparr>"

text \<open>A server that answers by the method of the request in flight.\<close>

definition request_method :: "json \<Rightarrow> string" where
  "request_method request = (case py_getitem request ''method'' of Inr (JStr m) \<Rightarrow> m | _ \<Rightarrow> [])"

definition answers_by_method :: "(string \<Rightarrow> exchange) \<Rightarrow> env" where
  "answers_by_method f =
     \<lparr>spawn = (\<lambda>cmd dir. None), peer = (\<lambda>h. f (request_method (last h))),
      exit_delay = Some 0, repr = example_repr\<rparr>"

text \<open>A command that cannot be launched.\<close>

definition unlaunchable :: env where
  "unlaunchable =
     \<lparr>spawn = (\<lambda>cmd dir. Some (OSError (''[Errno 2] No such file or directory: ''
                                          @ quoted ''server''))),
      peer = (\<lambda>h. Eof), exit_delay = Some 0, repr = example_repr\<rparr>"

text \<open>Two servers that never exit: one closes its output at once, the other answers
  every request with an empty result.\<close>

definition never_exits :: env where
  "never_exits = \<lparr>spawn = (\<lambda>cmd dir. None), peer = (\<lambda>h. Eof), exit_delay = None, repr = example_repr\<rparr>"

definition ignores_terminate :: env where
  "ignores_terminate = (answers (Line (JObj [(''result'', JObj [])])))\<lparr>exit_delay := None\<rparr>"

text \<open>A server that starts and stays silent.\<close>

definition silent :: env where
  "silent = answers Blocks"

text \<open>A server with one tool, \<open>echo\<close>, whose calls return the given content.\<close>

definition tool_server :: "json \<Rightarrow> env" where
  "tool_server content =
     answers_by_method (\<lambda>m.
       if m = ''tools/list''
       then Line (JObj [(''result'', JObj [(''tools'', JList [JObj [(''name'', JStr ''echo'')]])])])
       else if m = ''tools/call''
       then Line (JObj [(''result'', JObj [(''content'', content)])])
       else Line (JObj [(''result'', JObj [])]))"


section \<open>Auxiliary facts\<close>

lemmas run_defs = send_request_def answers_def answers_by_method_def started_def MCPTestClient_def
  request_method_def

lemma sum_ones_filter: "sum_list (map (\<lambda>r. (1::int)) (filter P rs)) = int (length (filter P rs))"
  by (induction rs) simp_all

lemma and_then_Inr: "and_then x f = Inr t \<longleftrightarrow> (\<exists>v. x = Inr v \<and> f v = Inr t)"
  by (cases x) (simp_all add: and_then_def)

lemma and_then_simps [simp]: "and_then (Inl exc) f = Inl exc" "and_then (Inr v) f = f v"
  by (simp_all add: and_then_def)

lemma map_of_in_keys: "map_of fs k = Some v \<Longrightarrow> k \<in> fst ` set fs"
  by (metis domI dom_map_of_conv_image_fst)

lemma map_of_notin_keys: "map_of fs k = None \<Longrightarrow> k \<notin> fst ` set fs"
  by (simp add: map_of_eq_None_iff)

lemma passed_except: "passed (except n x) \<longleftrightarrow> (\<exists>t. x = Inr t \<and> passed t)"
  by (cases x) (simp_all add: except_def)

lemma name_except: "(\<And>t. x = Inr t \<Longrightarrow> name t = n) \<Longrightarrow> name (except n x) = n"
  by (cases x) (simp_all add: except_def)

subsection \<open>Every probe records a result under its own name\<close>

lemma name_check_initialize: "check_initialize E resp = Inr t \<Longrightarrow> name t = ''initialize''"
  by (auto simp: check_initialize_def and_then_Inr Let_def split: if_splits)

lemma name_check_tools_list: "check_tools_list E resp = Inr t \<Longrightarrow> name t = ''tools/list''"
  by (auto simp: check_tools_list_def and_then_Inr Let_def split: if_splits)

lemma name_check_tools_call: "check_tools_call E n resp = Inr t \<Longrightarrow> name t = ''tools/call''"
  by (auto simp: check_tools_call_def and_then_Inr Let_def split: if_splits)

lemma name_check_ping: "check_ping E resp = Inr t \<Longrightarrow> name t = ''ping''"
  by (auto simp: check_ping_def and_then_Inr Let_def split: if_splits)

lemma name_check_unknown_method: "check_unknown_method resp = Inr t \<Longrightarrow> name t = ''unknown_method''"
  by (auto simp: check_unknown_method_def and_then_Inr Let_def split: if_splits)

lemma name_probe_initialize: "fst (probe_initialize E c) = Some t \<Longrightarrow> name t = ''initialize''"
  by (auto simp: probe_initialize_def and_then_Inr split: prod.splits option.splits
      intro!: name_except dest: name_check_initialize)

lemma name_probe_tools_list: "fst (probe_tools_list E c) = Some t \<Longrightarrow> name t = ''tools/list''"
  by (auto simp: probe_tools_list_def and_then_Inr split: prod.splits option.splits
      intro!: name_except dest: name_check_tools_list)

lemma name_probe_tools_call: "fst (probe_tools_call E c) = Some t \<Longrightarrow> name t = ''tools/call''"
  by (auto simp: probe_tools_call_def and_then_Inr except_def
      split: prod.splits option.splits sum.splits if_splits dest: name_check_tools_call)

lemma name_probe_ping: "fst (probe_ping E c) = Some t \<Longrightarrow> name t = ''ping''"
  by (auto simp: probe_ping_def and_then_Inr split: prod.splits option.splits
      intro!: name_except dest: name_check_ping)

lemma name_probe_unknown_method:
  "fst (probe_unknown_method E c) = Some t \<Longrightarrow> name t = ''unknown_method''"
  by (auto simp: probe_unknown_method_def and_then_Inr split: prod.splits option.splits
      intro!: name_except dest: name_check_unknown_method)

subsection \<open>What a request does to the client\<close>

lemma send_request_Inr:
  assumes "send_request E method params c = (Some (Inr resp), c')"
  shows "process c' = process c \<and> process c \<noteq> None \<and> request_id c' = request_id c + 1
       \<and> clock c' = clock c \<and> server_cmd c' = server_cmd c"
  using assms
  by (auto simp: send_request_def Let_def split: option.splits exchange.splits)

lemma send_request_requests:
  "send_request E method None c = (Some (Inr resp), c') \<Longrightarrow>
     requests c' = requests c @ [JObj [(''jsonrpc'', JStr ''2.0''), (''id'', JInt (request_id c + 1)),
                                        (''method'', JStr method)]]"
  by (auto simp: send_request_def Let_def split: option.splits exchange.splits)

lemma send_request_state:
  "process (snd (send_request E m ps c)) = process c
   \<and> clock (snd (send_request E m ps c)) = clock c
   \<and> server_cmd (snd (send_request E m ps c)) = server_cmd c"
  by (auto simp: send_request_def Let_def split: option.splits exchange.splits)

text \<open>The outcome of a request on a started client, by what the peer does with it.\<close>

lemma send_request_outcome:
  assumes "process c = Some p"
  shows "fst (send_request E m ps c) =
           (case peer E (requests (snd (send_request E m ps c))) of
              WriteFails exc \<Rightarrow> Some (Inl exc)
            | Blocks \<Rightarrow> None
            | Eof \<Rightarrow> Some (Inl (RuntimeError ''No response from server''))
            | ReadFails exc \<Rightarrow> Some (Inl exc)
            | Line v \<Rightarrow> Some (Inr v))"
  using assms
  by (simp add: send_request_def Let_def split: exchange.splits)

lemma probe_initialize_state:
  "process (snd (probe_initialize E c)) = process c \<and> clock (snd (probe_initialize E c)) = clock c
   \<and> server_cmd (snd (probe_initialize E c)) = server_cmd c"
  using send_request_state [of E "''initialize''" "Some initialize_params" c]
  by (cases "send_request E ''initialize'' (Some initialize_params) c")
    (simp add: probe_initialize_def split: option.splits)

lemma probe_tools_list_state:
  "process (snd (probe_tools_list E c)) = process c \<and> clock (snd (probe_tools_list E c)) = clock c
   \<and> server_cmd (snd (probe_tools_list E c)) = server_cmd c"
  using send_request_state [of E "''tools/list''" None c]
  by (cases "send_request E ''tools/list'' None c")
    (simp add: probe_tools_list_def split: option.splits)

lemma probe_ping_state:
  "process (snd (probe_ping E c)) = process c \<and> clock (snd (probe_ping E c)) = clock c
   \<and> server_cmd (snd (probe_ping E c)) = server_cmd c"
  using send_request_state [of E "''ping''" None c]
  by (cases "send_request E ''ping'' None c") (simp add: probe_ping_def split: option.splits)

lemma probe_unknown_method_state:
  "process (snd (probe_unknown_method E c)) = process c
   \<and> clock (snd (probe_unknown_method E c)) = clock c
   \<and> server_cmd (snd (probe_unknown_method E c)) = server_cmd c"
  using send_request_state [of E "''nonexistent/method''" None c]
  by (cases "send_request E ''nonexistent/method'' None c")
    (simp add: probe_unknown_method_def split: option.splits)

lemma probe_tools_call_state:
  "process (snd (probe_tools_call E c)) = process c \<and> clock (snd (probe_tools_call E c)) = clock c
   \<and> server_cmd (snd (probe_tools_call E c)) = server_cmd c"
proof -
  obtain r c1 where r: "send_request E ''tools/list'' None c = (r, c1)"
    by (cases "send_request E ''tools/list'' None c")
  have c1: "process c1 = process c \<and> clock c1 = clock c \<and> server_cmd c1 = server_cmd c"
    using send_request_state [of E "''tools/list''" None c] by (simp add: r)
  show ?thesis
  proof (cases r)
    case None
    with r c1 show ?thesis by (simp add: probe_tools_call_def)
  next
    case (Some r1)
    show ?thesis
    proof (cases "and_then r1 listed_tools")
      case (Inl exc)
      with r c1 Some show ?thesis by (simp add: probe_tools_call_def)
    next
      case (Inr tools)
      show ?thesis
      proof (cases "truthy tools")
        case False
        with r c1 Some Inr show ?thesis by (simp add: probe_tools_call_def)
      next
        case True
        show ?thesis
        proof (cases "first_tool_name tools")
          case (Inl exc)
          with r c1 Some Inr True show ?thesis by (simp add: probe_tools_call_def)
        next
          case tn: (Inr tool_name)
          from send_request_state [of E "''tools/call''" "Some (tools_call_params tool_name)" c1]
            r c1 Some Inr True tn show ?thesis
            by (cases "send_request E ''tools/call'' (Some (tools_call_params tool_name)) c1")
              (simp add: probe_tools_call_def split: option.splits)
        qed
      qed
    qed
  qed
qed

subsection \<open>A request that raises becomes a failing result\<close>

lemma initialize_failure_is_caught:
  "send_request E ''initialize'' (Some initialize_params) c = (Some (Inl exc), c') \<Longrightarrow>
     probe_initialize E c
       = (Some \<lparr>name = ''initialize'', passed = False, message = str_exc exc, response = None\<rparr>, c')"
  by (simp add: probe_initialize_def except_def)

lemma tools_list_failure_is_caught:
  "send_request E ''tools/list'' None c = (Some (Inl exc), c') \<Longrightarrow>
     probe_tools_list E c
       = (Some \<lparr>name = ''tools/list'', passed = False, message = str_exc exc, response = None\<rparr>, c')"
  by (simp add: probe_tools_list_def except_def)

lemma tools_call_refetch_failure_is_caught:
  "send_request E ''tools/list'' None c = (Some (Inl exc), c') \<Longrightarrow>
     probe_tools_call E c
       = (Some \<lparr>name = ''tools/call'', passed = False, message = str_exc exc, response = None\<rparr>, c')"
  by (simp add: probe_tools_call_def except_def)

lemma tools_call_failure_is_caught:
  "send_request E ''tools/list'' None c = (Some (Inr resp), c1) \<Longrightarrow>
   listed_tools resp = Inr tools \<Longrightarrow> truthy tools \<Longrightarrow> first_tool_name tools = Inr tool_name \<Longrightarrow>
   send_request E ''tools/call'' (Some (tools_call_params tool_name)) c1 = (Some (Inl exc), c2) \<Longrightarrow>
     probe_tools_call E c
       = (Some \<lparr>name = ''tools/call'', passed = False, message = str_exc exc, response = None\<rparr>, c2)"
  by (simp add: probe_tools_call_def except_def)

lemma ping_failure_is_caught:
  "send_request E ''ping'' None c = (Some (Inl exc), c') \<Longrightarrow>
     probe_ping E c
       = (Some \<lparr>name = ''ping'', passed = False, message = str_exc exc, response = None\<rparr>, c')"
  by (simp add: probe_ping_def except_def)

lemma unknown_method_failure_is_caught:
  "send_request E ''nonexistent/method'' None c = (Some (Inl exc), c') \<Longrightarrow>
     probe_unknown_method E c
       = (Some \<lparr>name = ''unknown_method'', passed = False, message = str_exc exc,
                response = None\<rparr>, c')"
  by (simp add: probe_unknown_method_def except_def)

text \<open>A request on which the read blocks ends nothing: the probe never returns, and
  neither does the run (lemma \<open>run_test_suite_started\<close> below).\<close>

lemma blocked_request_blocks_probe:
  "send_request E ''initialize'' (Some initialize_params) c = (None, c') \<Longrightarrow>
     probe_initialize E c = (None, c')"
  "send_request E ''tools/list'' None c = (None, c') \<Longrightarrow> probe_tools_list E c = (None, c')"
  "send_request E ''tools/list'' None c = (None, c') \<Longrightarrow> probe_tools_call E c = (None, c')"
  "send_request E ''ping'' None c = (None, c') \<Longrightarrow> probe_ping E c = (None, c')"
  "send_request E ''nonexistent/method'' None c = (None, c') \<Longrightarrow>
     probe_unknown_method E c = (None, c')"
  by (simp_all add: probe_initialize_def probe_tools_list_def probe_tools_call_def probe_ping_def
      probe_unknown_method_def)

subsection \<open>What stop() does\<close>

lemma stop_fresh_process:
  assumes "process c = Some \<lparr>signalled = None\<rparr>"
  shows "(\<exists>d. exit_delay E = Some d \<and> d \<le> 5) \<Longrightarrow> fst (stop E c) = Inr ()"
    and "\<not> (\<exists>d. exit_delay E = Some d \<and> d \<le> 5) \<Longrightarrow>
           fst (stop E c) = Inl (TimeoutExpired (timeout_message E c 5))
           \<and> process (snd (stop E c)) \<noteq> None \<and> clock (snd (stop E c)) = clock c + 5"
  using assms
  by (auto simp: stop_def wait_def remaining_def terminate_def Let_def timeout_message_def
      split: option.splits prod.splits if_splits)

text \<open>
  \<^verbatim>\<open>stop()\<close> never waits longer than five time units; on a client without a process it
  does nothing, so a \<^verbatim>\<open>stop()\<close> after one that returned does nothing; and it raises
  nothing but \<^verbatim>\<open>TimeoutExpired\<close>.
\<close>

lemma stop_bounded_wait:
  "clock (snd (stop E c)) \<le> clock c + 5"
  by (auto simp: stop_def wait_def remaining_def terminate_def Let_def
      split: option.splits prod.splits if_splits)

lemma stop_without_process: "process c = None \<Longrightarrow> stop E c = (Inr (), c)"
  by (simp add: stop_def)

lemma stop_after_stop:
  assumes "fst (stop E c) = Inr ()"
  shows "process (snd (stop E c)) = None \<and> stop E (snd (stop E c)) = (Inr (), snd (stop E c))"
proof -
  from assms have "process (snd (stop E c)) = None"
    by (auto simp: stop_def wait_def remaining_def terminate_def Let_def
        split: option.splits prod.splits if_splits)
  then show ?thesis by (simp add: stop_without_process)
qed

lemma stop_raises_only_timeout:
  "fst (stop E c) = Inl exc \<Longrightarrow>
     exc = TimeoutExpired (timeout_message E c 5) \<and> process (snd (stop E c)) \<noteq> None"
  by (auto simp: stop_def wait_def remaining_def terminate_def Let_def timeout_message_def
      split: option.splits prod.splits if_splits)

subsection \<open>The shape of a run\<close>

text \<open>
  When the server starts, the five request probes run in order, each on the client
  the one before left. If one of them never returns, the run never returns. If all
  do, the run ends with \<^verbatim>\<open>stop()\<close>: when it returns, the report is the passing
  \<open>server_start\<close>, the five results and the passing \<open>server_stop\<close>; when it raises, its
  exception leaves \<^verbatim>\<open>run_test_suite\<close>.
\<close>

lemma run_test_suite_started:
  assumes "spawn E cmd dir = None"
  shows "\<exists>c0 c1 c2 c3 c4 c5.
           c0 = (MCPTestClient cmd dir)\<lparr>process := Some \<lparr>signalled = None\<rparr>\<rparr>
         \<and> c1 = snd (probe_initialize E c0) \<and> c2 = snd (probe_tools_list E c1)
         \<and> c3 = snd (probe_tools_call E c2) \<and> c4 = snd (probe_ping E c3)
         \<and> c5 = snd (probe_unknown_method E c4)
         \<and> process c5 = Some \<lparr>signalled = None\<rparr>
         \<and> fst (run_test_suite E cmd dir) =
             (case fst (probe_initialize E c0) of None \<Rightarrow> None | Some t1 \<Rightarrow>
              case fst (probe_tools_list E c1) of None \<Rightarrow> None | Some t2 \<Rightarrow>
              case fst (probe_tools_call E c2) of None \<Rightarrow> None | Some t3 \<Rightarrow>
              case fst (probe_ping E c3) of None \<Rightarrow> None | Some t4 \<Rightarrow>
              case fst (probe_unknown_method E c4) of None \<Rightarrow> None | Some t5 \<Rightarrow>
              (case fst (stop E c5) of
                 Inl exc \<Rightarrow> Some (Inl exc)
               | Inr u \<Rightarrow>
                  Some (Inr \<lparr>results =
                    [\<lparr>name = ''server_start'', passed = True,
                      message = ''Server started successfully'', response = None\<rparr>,
                     t1, t2, t3, t4, t5,
                     \<lparr>name = ''server_stop'', passed = True,
                      message = ''Server stopped cleanly'', response = None\<rparr>]\<rparr>)))"
proof -
  define c0 where "c0 = (MCPTestClient cmd dir)\<lparr>process := Some \<lparr>signalled = None\<rparr>\<rparr>"
  define c1 where "c1 = snd (probe_initialize E c0)"
  define c2 where "c2 = snd (probe_tools_list E c1)"
  define c3 where "c3 = snd (probe_tools_call E c2)"
  define c4 where "c4 = snd (probe_ping E c3)"
  define c5 where "c5 = snd (probe_unknown_method E c4)"
  have "process c5 = Some \<lparr>signalled = None\<rparr>"
    by (simp add: c5_def c4_def c3_def c2_def c1_def c0_def probe_initialize_state
        probe_tools_list_state probe_tools_call_state probe_ping_state probe_unknown_method_state)
  moreover have "fst (run_test_suite E cmd dir) =
             (case fst (probe_initialize E c0) of None \<Rightarrow> None | Some t1 \<Rightarrow>
              case fst (probe_tools_list E c1) of None \<Rightarrow> None | Some t2 \<Rightarrow>
              case fst (probe_tools_call E c2) of None \<Rightarrow> None | Some t3 \<Rightarrow>
              case fst (probe_ping E c3) of None \<Rightarrow> None | Some t4 \<Rightarrow>
              case fst (probe_unknown_method E c4) of None \<Rightarrow> None | Some t5 \<Rightarrow>
              (case fst (stop E c5) of
                 Inl exc \<Rightarrow> Some (Inl exc)
               | Inr u \<Rightarrow>
                  Some (Inr \<lparr>results =
                    [\<lparr>name = ''server_start'', passed = True,
                      message = ''Server started successfully'', response = None\<rparr>,
                     t1, t2, t3, t4, t5,
                     \<lparr>name = ''server_stop'', passed = True,
                      message = ''Server stopped cleanly'', response = None\<rparr>]\<rparr>)))"
    using assms
    by (simp add: run_test_suite_def start_def MCPTestClient_def c0_def c1_def c2_def c3_def
        c4_def c5_def split: prod.splits sum.splits option.splits)
  ultimately show ?thesis
    using c0_def c1_def c2_def c3_def c4_def c5_def by blast
qed

lemma run_test_suite_report:
  assumes "fst (run_test_suite E cmd dir) = Some (Inr rep)"
  shows "(\<exists>exc. spawn E cmd dir = Some exc
            \<and> results rep = [\<lparr>name = ''server_start'', passed = False,
                               message = str_exc exc, response = None\<rparr>])
       \<or> (spawn E cmd dir = None
            \<and> (\<exists>t1 t2 t3 t4 t5.
                  results rep =
                    [\<lparr>name = ''server_start'', passed = True,
                      message = ''Server started successfully'', response = None\<rparr>,
                     t1, t2, t3, t4, t5,
                     \<lparr>name = ''server_stop'', passed = True,
                      message = ''Server stopped cleanly'', response = None\<rparr>]
                  \<and> name t1 = ''initialize'' \<and> name t2 = ''tools/list'' \<and> name t3 = ''tools/call''
                  \<and> name t4 = ''ping'' \<and> name t5 = ''unknown_method''))"
proof (cases "spawn E cmd dir")
  case (Some exc)
  with assms show ?thesis
    by (auto simp: run_test_suite_def start_def MCPTestClient_def)
next
  case None
  from run_test_suite_started [OF None] obtain c0 c1 c2 c3 c4 c5 where
    run: "fst (run_test_suite E cmd dir) =
             (case fst (probe_initialize E c0) of None \<Rightarrow> None | Some t1 \<Rightarrow>
              case fst (probe_tools_list E c1) of None \<Rightarrow> None | Some t2 \<Rightarrow>
              case fst (probe_tools_call E c2) of None \<Rightarrow> None | Some t3 \<Rightarrow>
              case fst (probe_ping E c3) of None \<Rightarrow> None | Some t4 \<Rightarrow>
              case fst (probe_unknown_method E c4) of None \<Rightarrow> None | Some t5 \<Rightarrow>
              (case fst (stop E c5) of
                 Inl exc \<Rightarrow> Some (Inl exc)
               | Inr u \<Rightarrow>
                  Some (Inr \<lparr>results =
                    [\<lparr>name = ''server_start'', passed = True,
                      message = ''Server started successfully'', response = None\<rparr>,
                     t1, t2, t3, t4, t5,
                     \<lparr>name = ''server_stop'', passed = True,
                      message = ''Server stopped cleanly'', response = None\<rparr>]\<rparr>)))"
    by blast
  from assms run obtain t1 t2 t3 t4 t5 where
    t: "fst (probe_initialize E c0) = Some t1" "fst (probe_tools_list E c1) = Some t2"
       "fst (probe_tools_call E c2) = Some t3" "fst (probe_ping E c3) = Some t4"
       "fst (probe_unknown_method E c4) = Some t5"
    and rep: "results rep =
       [\<lparr>name = ''server_start'', passed = True,
         message = ''Server started successfully'', response = None\<rparr>,
        t1, t2, t3, t4, t5,
        \<lparr>name = ''server_stop'', passed = True,
         message = ''Server stopped cleanly'', response = None\<rparr>]"
    by (auto split: option.splits sum.splits)
  from t have "name t1 = ''initialize''" "name t2 = ''tools/list''" "name t3 = ''tools/call''"
    "name t4 = ''ping''" "name t5 = ''unknown_method''"
    by (simp_all add: name_probe_initialize name_probe_tools_list name_probe_tools_call
        name_probe_ping name_probe_unknown_method)
  with None rep show ?thesis by blast
qed

text \<open>
  A run that ends returns a report exactly when the server does not start or exits
  within the five time units \<^verbatim>\<open>stop()\<close> waits; otherwise the exception of \<^verbatim>\<open>stop()\<close>
  leaves it. Nothing is said here of a run in which a read blocks: it never ends.
\<close>

lemma run_test_suite_returns_iff:
  assumes "fst (run_test_suite E cmd dir) \<noteq> None"
  shows "(\<exists>rep. fst (run_test_suite E cmd dir) = Some (Inr rep))
     \<longleftrightarrow> (spawn E cmd dir \<noteq> None \<or> (\<exists>d. exit_delay E = Some d \<and> d \<le> 5))"
proof (cases "spawn E cmd dir")
  case (Some exc)
  then show ?thesis by (simp add: run_test_suite_def start_def MCPTestClient_def)
next
  case None
  from run_test_suite_started [OF None] obtain c0 c1 c2 c3 c4 c5 where
    c5: "process c5 = Some \<lparr>signalled = None\<rparr>" and
    run: "fst (run_test_suite E cmd dir) =
             (case fst (probe_initialize E c0) of None \<Rightarrow> None | Some t1 \<Rightarrow>
              case fst (probe_tools_list E c1) of None \<Rightarrow> None | Some t2 \<Rightarrow>
              case fst (probe_tools_call E c2) of None \<Rightarrow> None | Some t3 \<Rightarrow>
              case fst (probe_ping E c3) of None \<Rightarrow> None | Some t4 \<Rightarrow>
              case fst (probe_unknown_method E c4) of None \<Rightarrow> None | Some t5 \<Rightarrow>
              (case fst (stop E c5) of
                 Inl exc \<Rightarrow> Some (Inl exc)
               | Inr u \<Rightarrow>
                  Some (Inr \<lparr>results =
                    [\<lparr>name = ''server_start'', passed = True,
                      message = ''Server started successfully'', response = None\<rparr>,
                     t1, t2, t3, t4, t5,
                     \<lparr>name = ''server_stop'', passed = True,
                      message = ''Server stopped cleanly'', response = None\<rparr>]\<rparr>)))"
    by blast
  show ?thesis
  proof (cases "\<exists>d. exit_delay E = Some d \<and> d \<le> 5")
    case True
    with stop_fresh_process(1) [OF c5, of E] None run assms show ?thesis
      by (auto split: option.splits)
  next
    case False
    with stop_fresh_process(2) [OF c5, of E] None run assms show ?thesis
      by (auto split: option.splits)
  qed
qed

text \<open>A silent server: the read of the first probe blocks and the run never returns.\<close>

lemma run_test_suite_blocks_on_silent_server:
  "fst (run_test_suite silent [''server''] None) = None"
  by (simp add: run_test_suite_def start_def MCPTestClient_def silent_def answers_def
      probe_initialize_def send_request_def)

text \<open>
  Whenever \<^verbatim>\<open>run_test_suite\<close> returns a report, a \<open>server_stop\<close> result is in it exactly
  when a passing \<open>server_start\<close> result is, and every \<open>server_stop\<close> result in it passed.
\<close>

lemma report_server_stop_iff_server_start_passed:
  assumes "fst (run_test_suite E cmd dir) = Some (Inr rep)"
  shows "((\<exists>t \<in> set (results rep). name t = ''server_stop'')
            \<longleftrightarrow> (\<exists>t \<in> set (results rep). name t = ''server_start'' \<and> passed t))
       \<and> (\<forall>t \<in> set (results rep). name t = ''server_stop'' \<longrightarrow> passed t)"
proof -
  from run_test_suite_report [OF assms] consider
    (failed) exc where "results rep = [\<lparr>name = ''server_start'', passed = False,
                               message = str_exc exc, response = None\<rparr>]"
  | (started) t1 t2 t3 t4 t5 where
      "results rep =
         [\<lparr>name = ''server_start'', passed = True,
           message = ''Server started successfully'', response = None\<rparr>,
          t1, t2, t3, t4, t5,
          \<lparr>name = ''server_stop'', passed = True,
           message = ''Server stopped cleanly'', response = None\<rparr>]"
      "name t1 = ''initialize''" "name t2 = ''tools/list''" "name t3 = ''tools/call''"
      "name t4 = ''ping''" "name t5 = ''unknown_method''"
    by blast
  then show ?thesis
  proof cases
    case failed
    then show ?thesis by simp
  next
    case started
    then show ?thesis by simp
  qed
qed

subsection \<open>The length test of the tools/call probe\<close>

lemma py_len_positive:
  "(\<exists>n. py_len v = Inr n \<and> 0 < n)
     \<longleftrightarrow> ((\<exists>x xs. v = JList (x # xs)) \<or> (\<exists>ch s. v = JStr (ch # s)) \<or> (\<exists>p ps. v = JObj (p # ps)))"
  by (cases v) (auto simp: neq_Nil_conv)

lemma check_tools_call_passed:
  "(\<exists>t. check_tools_call E n (JObj fs2) = Inr t \<and> passed t)
     \<longleftrightarrow> (\<exists>rs2 content. map_of fs2 ''result'' = Some (JObj rs2)
            \<and> map_of rs2 ''content'' = Some content
            \<and> ((\<exists>x xs. content = JList (x # xs)) \<or> (\<exists>ch s. content = JStr (ch # s))
                \<or> (\<exists>p ps. content = JObj (p # ps))))"
proof (cases "map_of fs2 ''result''")
  case None
  then show ?thesis
    by (auto simp: check_tools_call_def map_of_notin_keys error_message_def)
next
  case (Some result)
  note res = Some
  show ?thesis
  proof (cases result)
    case (JObj rs2)
    show ?thesis
    proof (cases "map_of rs2 ''content''")
      case None
      with res JObj show ?thesis
        by (simp add: check_tools_call_def map_of_in_keys)
    next
      case (Some content)
      with res JObj py_len_positive [of content] show ?thesis
        by (cases "py_len content") (auto simp: check_tools_call_def map_of_in_keys)
    qed
  qed (use res in \<open>simp_all add: check_tools_call_def map_of_in_keys\<close>)
qed


section \<open>The claims\<close>

subsection \<open>Failures during a run\<close>

text \<open>
  C1. Every failure raised during a probe other than \<open>server_start\<close> becomes a failing
  result, and \<^verbatim>\<open>run_test_suite\<close> never raises and always returns a report. The first
  half holds: the lemmas \<open>initialize_failure_is_caught\<close> to
  \<open>unknown_method_failure_is_caught\<close> give the failing result, with the message of the
  exception, for every request that raises. The second half fails on the code: the
  final \<^verbatim>\<open>client.stop()\<close> stands outside every \<^verbatim>\<open>try\<close>, so for a server that does
  not exit within the five time units \<^verbatim>\<open>wait\<close> allows, \<^verbatim>\<open>TimeoutExpired\<close> leaves
  \<^verbatim>\<open>run_test_suite\<close> and no report is returned. The theorem runs the suite on such a
  server, one that starts, closes its output and never exits.
\<close>

theorem run_test_suite_raises_when_stop_times_out:
  "fst (run_test_suite never_exits [''server''] None)
     = Some (Inl (TimeoutExpired (''Command '' @ quoted (''['' @ quoted ''server'' @ '']'')
                                   @ '' timed out after 5 seconds'')))"
  by (simp add: run_test_suite_def start_def MCPTestClient_def never_exits_def
      probe_initialize_def probe_tools_list_def probe_tools_call_def probe_ping_def
      probe_unknown_method_def send_request_def except_def stop_def terminate_def wait_def
      remaining_def timeout_message_def example_repr_def example_item_def)

subsection \<open>The initialize probe\<close>




subsection \<open>The start and the stop of the server\<close>

text \<open>
  C3. For every run, a \<open>server_stop\<close> result is in the report exactly when
  \<open>server_start\<close> passed, and it is recorded as passing. This holds of every report
  that \<^verbatim>\<open>run_test_suite\<close> returns (lemma \<open>report_server_stop_iff_server_start_passed\<close>).
  It fails on the code for the run in which the server starts and does not exit
  within the five time units \<^verbatim>\<open>stop()\<close> waits: \<open>server_start\<close> has passed, and the
  exception of the unguarded \<^verbatim>\<open>client.stop()\<close> leaves \<^verbatim>\<open>run_test_suite\<close> before
  \<open>server_stop\<close> is recorded, so that no \<open>server_stop\<close> result, and no report, comes
  out of the run. The theorem runs the suite on a server that starts, answers every
  request and never exits.
\<close>

theorem no_server_stop_when_stop_times_out:
  "spawn ignores_terminate [''server''] None = None
   \<and> fst (run_test_suite ignores_terminate [''server''] None)
     = Some (Inl (TimeoutExpired (''Command '' @ quoted (''['' @ quoted ''server'' @ '']'')
                                   @ '' timed out after 5 seconds'')))"
  by (simp add: run_test_suite_def start_def MCPTestClient_def ignores_terminate_def answers_def
      probe_initialize_def probe_tools_list_def probe_tools_call_def probe_ping_def
      probe_unknown_method_def send_request_def except_def stop_def terminate_def wait_def
      remaining_def timeout_message_def example_repr_def example_item_def
      check_initialize_def check_tools_list_def check_ping_def check_unknown_method_def
      listed_tools_def error_message_def py_str_def str_bool_def)

text \<open>
  C4. \<^verbatim>\<open>stop()\<close> waits at most five time units, accepts without an error a process
  that is still running after them, and does nothing on a client already stopped.
  The bound and the last part hold (lemmas \<open>stop_bounded_wait\<close>, \<open>stop_without_process\<close>
  and \<open>stop_after_stop\<close>). The middle part fails on the code: \<^verbatim>\<open>wait(timeout=5)\<close> raises
  \<^verbatim>\<open>TimeoutExpired\<close> for a child that is still running, nothing in \<^verbatim>\<open>stop()\<close> catches
  it or kills the child, and the handle is not cleared. The theorem stops a client
  whose server never exits.
\<close>

theorem stop_raises_when_child_outlives_timeout:
  "stop never_exits started
     = (Inl (TimeoutExpired (''Command '' @ quoted (''['' @ quoted ''server'' @ '']'')
                              @ '' timed out after 5 seconds'')),
        started\<lparr>process := Some \<lparr>signalled = Some 0\<rparr>, clock := 5\<rparr>)"
  by (simp add: stop_def wait_def remaining_def terminate_def never_exits_def started_def
      MCPTestClient_def timeout_message_def example_repr_def example_item_def)

subsection \<open>The tools probes\<close>

text \<open>
  C5, amended. Let the re-fetched tool list be a non-empty list whose first entry is
  a mapping with a \<open>name\<close>. Then the probe sends a \<open>tools/call\<close> request naming that
  tool, with arguments \<^verbatim>\<open>{"query": "test"}\<close>. When the request returns a mapping, the
  probe passes exactly when its \<open>result\<close> is a mapping whose \<open>content\<close> has a positive
  length: a non-empty list, and as well a non-empty string or a non-empty mapping,
  since the source tests \<^verbatim>\<open>len(content) > 0\<close> and not the type.
\<close>

theorem tools_call_first_tool:
  assumes "send_request E ''tools/list'' None c = (Some (Inr (JObj fs)), c1)"
    and "map_of fs ''result'' = Some (JObj rs)"
    and "map_of rs ''tools'' = Some (JList (JObj tool # rest))"
    and "map_of tool ''name'' = Some tool_name"
  shows "requests (snd (probe_tools_call E c))
           = requests c1 @ [JObj [(''jsonrpc'', JStr ''2.0''), (''id'', JInt (request_id c1 + 1)),
                                  (''method'', JStr ''tools/call''),
                                  (''params'', JObj [(''name'', tool_name),
                                     (''arguments'', JObj [(''query'', JStr ''test'')])])]]
       \<and> (\<forall>fs2 c2.
            send_request E ''tools/call''
                (Some [(''name'', tool_name), (''arguments'', JObj [(''query'', JStr ''test'')])]) c1
              = (Some (Inr (JObj fs2)), c2) \<longrightarrow>
            (\<exists>t. fst (probe_tools_call E c) = Some t
               \<and> (passed t
                    \<longleftrightarrow> (\<exists>rs2 content. map_of fs2 ''result'' = Some (JObj rs2)
                           \<and> map_of rs2 ''content'' = Some content
                           \<and> ((\<exists>x xs. content = JList (x # xs)) \<or> (\<exists>ch s. content = JStr (ch # s))
                               \<or> (\<exists>p ps. content = JObj (p # ps)))))))"
proof -
  have probe: "probe_tools_call E c =
      (case send_request E ''tools/call'' (Some (tools_call_params tool_name)) c1 of
         (None, c2) \<Rightarrow> (None, c2)
       | (Some r2, c2) \<Rightarrow>
           (Some (except ''tools/call'' (and_then r2 (check_tools_call E tool_name))), c2))"
    using assms by (simp add: probe_tools_call_def listed_tools_def first_tool_name_def)
  obtain p where p: "process c1 = Some p"
    using send_request_Inr [OF assms(1)] by auto
  have log: "requests (snd (probe_tools_call E c))
           = requests c1 @ [JObj [(''jsonrpc'', JStr ''2.0''), (''id'', JInt (request_id c1 + 1)),
                                  (''method'', JStr ''tools/call''),
                                  (''params'', JObj [(''name'', tool_name),
                                     (''arguments'', JObj [(''query'', JStr ''test'')])])]]"
    using p by (simp add: probe send_request_def tools_call_params_def Let_def split: exchange.splits)
  have pass: "\<exists>t. fst (probe_tools_call E c) = Some t
               \<and> (passed t
                    \<longleftrightarrow> (\<exists>rs2 content. map_of fs2 ''result'' = Some (JObj rs2)
                           \<and> map_of rs2 ''content'' = Some content
                           \<and> ((\<exists>x xs. content = JList (x # xs)) \<or> (\<exists>ch s. content = JStr (ch # s))
                               \<or> (\<exists>p ps. content = JObj (p # ps)))))"
    if "send_request E ''tools/call''
                (Some [(''name'', tool_name), (''arguments'', JObj [(''query'', JStr ''test'')])]) c1
              = (Some (Inr (JObj fs2)), c2)" for fs2 c2
    using that check_tools_call_passed [of E tool_name fs2]
    by (simp add: probe tools_call_params_def passed_except)
  from log pass show ?thesis by blast
qed

text \<open>A server whose tool \<open>echo\<close> returns one block of content.\<close>

theorem tools_call_first_tool_witness:
  "fst (send_request (tool_server (JList [JObj [(''type'', JStr ''text'')]])) ''tools/list'' None started)
     = Some (Inr (JObj [(''result'', JObj [(''tools'', JList [JObj [(''name'', JStr ''echo'')]])])]))
   \<and> requests (snd (probe_tools_call (tool_server (JList [JObj [(''type'', JStr ''text'')]])) started))
     = [JObj [(''jsonrpc'', JStr ''2.0''), (''id'', JInt 1), (''method'', JStr ''tools/list'')],
        JObj [(''jsonrpc'', JStr ''2.0''), (''id'', JInt 2), (''method'', JStr ''tools/call''),
              (''params'', JObj [(''name'', JStr ''echo''),
                                 (''arguments'', JObj [(''query'', JStr ''test'')])])]]
   \<and> map_option passed
        (fst (probe_tools_call (tool_server (JList [JObj [(''type'', JStr ''text'')]])) started))
     = Some True"
proof -
  let ?E = "tool_server (JList [JObj [(''type'', JStr ''text'')]])"
  let ?c1 = "started\<lparr>request_id := 1,
                requests := [JObj [(''jsonrpc'', JStr ''2.0''), (''id'', JInt 1),
                                   (''method'', JStr ''tools/list'')]]\<rparr>"
  have sent: "send_request ?E ''tools/list'' None started
     = (Some (Inr (JObj [(''result'', JObj [(''tools'', JList [JObj [(''name'', JStr ''echo'')]])])])),
        ?c1)"
    by (simp add: run_defs tool_server_def)
  obtain c2 where call: "send_request ?E ''tools/call''
        (Some [(''name'', JStr ''echo''), (''arguments'', JObj [(''query'', JStr ''test'')])]) ?c1
     = (Some (Inr (JObj [(''result'', JObj [(''content'', JList [JObj [(''type'', JStr ''text'')]])])])),
        c2)"
    by (simp add: run_defs tool_server_def)
  from tools_call_first_tool [OF sent, of "[(''tools'', JList [JObj [(''name'', JStr ''echo'')]])]"
      "[(''name'', JStr ''echo'')]" "[]" "JStr ''echo''"] sent call
  show ?thesis
    by (auto simp: started_def MCPTestClient_def)
qed

text \<open>The claim as stated fails on a server whose tool returns the string \<open>hello\<close> as
  content: the probe passes, and the content is not a list.\<close>

theorem tools_call_content_counterexample:
  "fst (probe_tools_call (tool_server (JStr ''hello'')) started)
     = Some \<lparr>name = ''tools/call'', passed = True,
        message = ''Called '' @ quoted ''echo'' @ '' successfully'',
        response = Some (JObj [(''result'', JObj [(''content'', JStr ''hello'')])])\<rparr>"
  by (simp add: probe_tools_call_def listed_tools_def first_tool_name_def tools_call_params_def
      check_tools_call_def except_def run_defs tool_server_def py_str_def)

text \<open>
  C6. Let a \<open>tools/list\<close> request return a mapping whose \<open>result\<close> is a mapping with a
  list under \<open>tools\<close>. Then the \<open>tools/list\<close> probe passes, whatever the list. If the
  list is empty, the \<open>tools/call\<close> probe records a passing result with the message
  \<^verbatim>\<open>No tools to test (skipped)\<close>, and the only request it has written is the
  \<open>tools/list\<close> one: no \<open>tools/call\<close> request is attempted.
\<close>

theorem empty_tool_list_passes_and_skips:
  assumes "send_request E ''tools/list'' None c = (Some (Inr (JObj fs)), c')"
    and "map_of fs ''result'' = Some (JObj rs)"
    and "map_of rs ''tools'' = Some (JList ts)"
  shows "fst (probe_tools_list E c)
           = Some \<lparr>name = ''tools/list'', passed = True,
              message = ''Found '' @ py_str E (JInt (int (length ts))) @ '' tools'',
              response = Some (JObj fs)\<rparr>
       \<and> (ts = [] \<longrightarrow>
            probe_tools_call E c
              = (Some \<lparr>name = ''tools/call'', passed = True,
                  message = ''No tools to test (skipped)'', response = None\<rparr>, c')
            \<and> requests c'
              = requests c @ [JObj [(''jsonrpc'', JStr ''2.0''), (''id'', JInt (request_id c + 1)),
                                    (''method'', JStr ''tools/list'')]])"
proof (intro conjI impI)
  from assms show "fst (probe_tools_list E c)
           = Some \<lparr>name = ''tools/list'', passed = True,
              message = ''Found '' @ py_str E (JInt (int (length ts))) @ '' tools'',
              response = Some (JObj fs)\<rparr>"
    by (simp add: probe_tools_list_def check_tools_list_def except_def map_of_in_keys)
next
  assume "ts = []"
  with assms show "probe_tools_call E c
              = (Some \<lparr>name = ''tools/call'', passed = True,
                  message = ''No tools to test (skipped)'', response = None\<rparr>, c')"
    by (simp add: probe_tools_call_def listed_tools_def)
next
  from send_request_requests [OF assms(1)]
  show "requests c'
          = requests c @ [JObj [(''jsonrpc'', JStr ''2.0''), (''id'', JInt (request_id c + 1)),
                                (''method'', JStr ''tools/list'')]]" .
qed

text \<open>A server that lists no tools.\<close>

theorem empty_tool_list_passes_and_skips_witness:
  "send_request (answers (Line (JObj [(''result'', JObj [(''tools'', JList [])])]))) ''tools/list'' None started
     = (Some (Inr (JObj [(''result'', JObj [(''tools'', JList [])])])),
        started\<lparr>request_id := 1,
                requests := [JObj [(''jsonrpc'', JStr ''2.0''), (''id'', JInt 1),
                                   (''method'', JStr ''tools/list'')]]\<rparr>)
   \<and> fst (probe_tools_list (answers (Line (JObj [(''result'', JObj [(''tools'', JList [])])]))) started)
     = Some \<lparr>name = ''tools/list'', passed = True, message = ''Found 0 tools'',
        response = Some (JObj [(''result'', JObj [(''tools'', JList [])])])\<rparr>
   \<and> probe_tools_call (answers (Line (JObj [(''result'', JObj [(''tools'', JList [])])]))) started
     = (Some \<lparr>name = ''tools/call'', passed = True,
         message = ''No tools to test (skipped)'', response = None\<rparr>,
        started\<lparr>request_id := 1,
                requests := [JObj [(''jsonrpc'', JStr ''2.0''), (''id'', JInt 1),
                                   (''method'', JStr ''tools/list'')]]\<rparr>)"
proof -
  have sent: "send_request (answers (Line (JObj [(''result'', JObj [(''tools'', JList [])])]))) ''tools/list'' None started
     = (Some (Inr (JObj [(''result'', JObj [(''tools'', JList [])])])),
        started\<lparr>request_id := 1,
                requests := [JObj [(''jsonrpc'', JStr ''2.0''), (''id'', JInt 1),
                                   (''method'', JStr ''tools/list'')]]\<rparr>)"
    by (simp add: run_defs)
  from empty_tool_list_passes_and_skips [OF sent, of "[(''tools'', JList [])]" "[]"] sent
  show ?thesis
    by (simp add: py_str_def answers_def example_repr_def)
qed

subsection \<open>The unknown_method probe\<close>

text \<open>
  C7, amended. When the request for the method \<^verbatim>\<open>nonexistent/method\<close> returns a
  mapping, the \<open>unknown_method\<close> probe passes exactly when \<open>error\<close> is a key of it. For
  the answer \<^verbatim>\<open>{"result": {}}\<close> the probe fails: that is the instance evaluated after
  the theorem.
\<close>

theorem unknown_method_passes_iff_error_field:
  assumes "send_request E ''nonexistent/method'' None c = (Some (Inr (JObj fs)), c')"
  shows "probe_unknown_method E c =
       (Some \<lparr>name = ''unknown_method'', passed = (''error'' \<in> fst ` set fs),
         message = (if ''error'' \<in> fst ` set fs
                    then ''Correctly returned error for unknown method''
                    else ''Should have returned error''),
         response = Some (JObj fs)\<rparr>, c')"
proof -
  have "check_unknown_method (JObj fs) =
      Inr \<lparr>name = ''unknown_method'', passed = (''error'' \<in> fst ` set fs),
         message = (if ''error'' \<in> fst ` set fs
                    then ''Correctly returned error for unknown method''
                    else ''Should have returned error''),
         response = Some (JObj fs)\<rparr>"
    by (simp add: check_unknown_method_def)
  with assms show ?thesis
    by (simp add: probe_unknown_method_def except_def)
qed

theorem unknown_method_passes_iff_error_field_witness:
  "send_request (answers (Line (JObj [(''result'', JObj [])]))) ''nonexistent/method'' None started
     = (Some (Inr (JObj [(''result'', JObj [])])),
        started\<lparr>request_id := 1,
                requests := [JObj [(''jsonrpc'', JStr ''2.0''), (''id'', JInt 1),
                                   (''method'', JStr ''nonexistent/method'')]]\<rparr>)
   \<and> map_option passed
        (fst (probe_unknown_method (answers (Line (JObj [(''result'', JObj [])]))) started))
     = Some False"
proof -
  have sent: "send_request (answers (Line (JObj [(''result'', JObj [])]))) ''nonexistent/method'' None started
     = (Some (Inr (JObj [(''result'', JObj [])])),
        started\<lparr>request_id := 1,
                requests := [JObj [(''jsonrpc'', JStr ''2.0''), (''id'', JInt 1),
                                   (''method'', JStr ''nonexistent/method'')]]\<rparr>)"
    by (simp add: run_defs)
  from unknown_method_passes_iff_error_field [OF sent] sent show ?thesis
    by simp
qed

text \<open>
  The claim as stated fails on an answer that is not a mapping: the source tests
  \<^verbatim>\<open>"error" in resp\<close>, which is membership on a list and substring on a string. The
  probe passes on the answer \<^verbatim>\<open>["error"]\<close> and on the answer \<^verbatim>\<open>"no error"\<close>, neither
  of which has an \<open>error\<close> field.
\<close>

theorem unknown_method_not_a_mapping_counterexample:
  "fst (probe_unknown_method (answers (Line (JList [JStr ''error'']))) started)
     = Some \<lparr>name = ''unknown_method'', passed = True,
        message = ''Correctly returned error for unknown method'',
        response = Some (JList [JStr ''error''])\<rparr>
   \<and> fst (probe_unknown_method (answers (Line (JStr ''no error''))) started)
     = Some \<lparr>name = ''unknown_method'', passed = True,
        message = ''Correctly returned error for unknown method'',
        response = Some (JStr ''no error'')\<rparr>"
  by (simp add: probe_unknown_method_def check_unknown_method_def except_def run_defs)

subsection \<open>A server that does not start\<close>

text \<open>
  C8. If starting the server process fails, \<^verbatim>\<open>run_test_suite\<close> returns a report with
  exactly one result, a failing \<open>server_start\<close> whose message is that of the failure;
  no request has been written and no request id has been used.
\<close>

theorem start_failure_single_result:
  assumes "spawn E cmd dir = Some exc"
  shows "fst (run_test_suite E cmd dir)
       = Some (Inr \<lparr>results = [\<lparr>name = ''server_start'', passed = False,
                                 message = str_exc exc, response = None\<rparr>]\<rparr>)
     \<and> requests (snd (run_test_suite E cmd dir)) = []
     \<and> request_id (snd (run_test_suite E cmd dir)) = 0
     \<and> process (snd (run_test_suite E cmd dir)) = None"
proof -
  from assms have "start E (MCPTestClient cmd dir) = (Inl exc, MCPTestClient cmd dir)"
    by (simp add: start_def MCPTestClient_def)
  then have "run_test_suite E cmd dir
       = (Some (Inr \<lparr>results = [\<lparr>name = ''server_start'', passed = False,
                                  message = str_exc exc, response = None\<rparr>]\<rparr>),
          MCPTestClient cmd dir)"
    by (simp add: run_test_suite_def)
  then show ?thesis
    by (simp add: MCPTestClient_def)
qed

theorem start_failure_single_result_witness:
  "spawn unlaunchable [''server''] None
     = Some (OSError (''[Errno 2] No such file or directory: '' @ quoted ''server''))
   \<and> fst (run_test_suite unlaunchable [''server''] None)
       = Some (Inr \<lparr>results = [\<lparr>name = ''server_start'', passed = False,
            message = ''[Errno 2] No such file or directory: '' @ quoted ''server'',
            response = None\<rparr>]\<rparr>)
   \<and> requests (snd (run_test_suite unlaunchable [''server''] None)) = []"
  using start_failure_single_result [of unlaunchable "[''server'']" None
      "OSError (''[Errno 2] No such file or directory: '' @ quoted ''server'')"]
  by (simp add: unlaunchable_def)

subsection \<open>The counts of a report\<close>

text \<open>
  C9. For every report, \<open>total\<close> is \<open>passed\<close> plus \<open>failed\<close>. The three are functions of
  the result sequence alone, so they follow every change of it: appending a result
  adds one to \<open>total\<close> and one to \<open>passed\<close> or to \<open>failed\<close>, according to its flag.
\<close>

theorem report_total_eq_passed_plus_failed:
  "TestReport_total rep = TestReport_passed rep + TestReport_failed rep
   \<and> TestReport_total (rep\<lparr>results := results rep @ [t]\<rparr>) = TestReport_total rep + 1
   \<and> TestReport_passed (rep\<lparr>results := results rep @ [t]\<rparr>)
       = TestReport_passed rep + (if passed t then 1 else 0)
   \<and> TestReport_failed (rep\<lparr>results := results rep @ [t]\<rparr>)
       = TestReport_failed rep + (if passed t then 0 else 1)"
proof -
  have "length (results rep) = length (filter passed (results rep))
          + length (filter (\<lambda>r. \<not> passed r) (results rep))"
    by (simp add: sum_length_filter_compl)
  then show ?thesis
    by (simp add: TestReport_total_def TestReport_passed_def TestReport_failed_def sum_ones_filter)
qed

subsection \<open>A re-fetch without tools\<close>

text \<open>
  C10, amended. Let the re-fetch of the tool list in the \<open>tools/call\<close> probe return a
  mapping that has no \<open>result\<close>, as an error response does, or a mapping whose
  \<open>result\<close> is a mapping without \<open>tools\<close>. Then the probe records a passing result
  with the message \<^verbatim>\<open>No tools to test (skipped)\<close>, as it does for an empty tool list.
\<close>

theorem refetch_without_tools_is_skipped:
  assumes "send_request E ''tools/list'' None c = (Some (Inr (JObj fs)), c')"
    and "map_of fs ''result'' = None
         \<or> (\<exists>rs. map_of fs ''result'' = Some (JObj rs) \<and> map_of rs ''tools'' = None)"
  shows "probe_tools_call E c
           = (Some \<lparr>name = ''tools/call'', passed = True,
               message = ''No tools to test (skipped)'', response = None\<rparr>, c')"
proof -
  from assms(2) have "listed_tools (JObj fs) = Inr (JList [])"
    by (auto simp: listed_tools_def)
  with assms(1) show ?thesis
    by (simp add: probe_tools_call_def)
qed

text \<open>A server that answers the re-fetch with an error.\<close>

theorem refetch_without_tools_is_skipped_witness:
  "send_request (answers (Line (JObj [(''error'', JObj [(''code'', JInt (- 32601))])]))) ''tools/list'' None started
     = (Some (Inr (JObj [(''error'', JObj [(''code'', JInt (- 32601))])])),
        started\<lparr>request_id := 1,
                requests := [JObj [(''jsonrpc'', JStr ''2.0''), (''id'', JInt 1),
                                   (''method'', JStr ''tools/list'')]]\<rparr>)
   \<and> map_of [(''error'', JObj [(''code'', JInt (- 32601))])] ''result'' = None
   \<and> probe_tools_call (answers (Line (JObj [(''error'', JObj [(''code'', JInt (- 32601))])]))) started
     = (Some \<lparr>name = ''tools/call'', passed = True,
         message = ''No tools to test (skipped)'', response = None\<rparr>,
        started\<lparr>request_id := 1,
                requests := [JObj [(''jsonrpc'', JStr ''2.0''), (''id'', JInt 1),
                                   (''method'', JStr ''tools/list'')]]\<rparr>)"
proof -
  have sent: "send_request (answers (Line (JObj [(''error'', JObj [(''code'', JInt (- 32601))])]))) ''tools/list'' None started
     = (Some (Inr (JObj [(''error'', JObj [(''code'', JInt (- 32601))])])),
        started\<lparr>request_id := 1,
                requests := [JObj [(''jsonrpc'', JStr ''2.0''), (''id'', JInt 1),
                                   (''method'', JStr ''tools/list'')]]\<rparr>)"
    by (simp add: run_defs)
  from refetch_without_tools_is_skipped [OF sent] sent show ?thesis
    by simp
qed

text \<open>
  The claim as stated fails where the \<open>result\<close>, or the response itself, is not a
  mapping: \<^verbatim>\<open>.get\<close> raises \<^verbatim>\<open>AttributeError\<close> and the probe records a failure. So it
  does on the answers \<^verbatim>\<open>{"result": null}\<close> and \<^verbatim>\<open>{"result": []}\<close>, each a result
  without a \<open>tools\<close> key, and on the answer \<^verbatim>\<open>[]\<close>, a response without a \<open>result\<close>
  field.
\<close>

theorem refetch_result_not_a_mapping_counterexample:
  "fst (probe_tools_call (answers (Line (JObj [(''result'', JNull)]))) started)
     = Some \<lparr>name = ''tools/call'', passed = False,
        message = quoted ''NoneType'' @ '' object has no attribute '' @ quoted ''get'',
        response = None\<rparr>
   \<and> fst (probe_tools_call (answers (Line (JObj [(''result'', JList [])]))) started)
     = Some \<lparr>name = ''tools/call'', passed = False,
        message = quoted ''list'' @ '' object has no attribute '' @ quoted ''get'',
        response = None\<rparr>
   \<and> fst (probe_tools_call (answers (Line (JList []))) started)
     = Some \<lparr>name = ''tools/call'', passed = False,
        message = quoted ''list'' @ '' object has no attribute '' @ quoted ''get'',
        response = None\<rparr>"
  by (simp add: probe_tools_call_def listed_tools_def except_def run_defs)

end
